theory Spec2Isabelle
  imports Complex_Main
begin

section \<open>The animated background: data model\<close>

text \<open>
  The component \<open>ParticleBackground\<close> keeps its simulation in closure variables
  (\<open>particles\<close>, \<open>waves\<close>, \<open>time\<close>, \<open>mouse\<close>) and reads the canvas size on every
  step. The model passes these explicitly. JavaScript numbers are modelled as
  \<open>real\<close>: the arithmetic is exact, \<open>Math.sqrt\<close> is \<open>sqrt\<close>, \<open>Math.sin\<close> is \<open>sin\<close>,
  \<open>Math.min\<close> is \<open>min\<close>, and the literal \<open>0.1\<close> is \<open>1 / 10\<close>. A field that is
  \<open>undefined\<close> until it is assigned is an \<open>option\<close>. The only divisions whose divisor
  is not a positive constant or a positive threshold are those of \<open>drawWaves\<close> (by
  \<open>canvas.height\<close> and by \<open>wave.wavelength\<close>); what they produce is a \<open>number\<close>, which
  is a real, an infinity or \<open>NaN\<close>.

  Record fields are global constants in HOL, so the fields \<open>x\<close>, \<open>y\<close>, \<open>dx\<close>, \<open>dy\<close>
  of a particle are named \<open>pos_x\<close>, \<open>pos_y\<close>, \<open>vel_dx\<close>, \<open>vel_dy\<close>, the fields of
  \<open>mouse\<close> carry the prefix \<open>mouse_\<close>, and the colour of a wave is \<open>wave_color\<close>.
\<close>

datatype AnimationType = Network | Waves | Dots

datatype number = Finite real | PosInfinity | NegInfinity | NaN

text \<open>
  Division of two reals as JavaScript performs it; a divisor \<open>0\<close> is the positive zero
  (the height of a canvas and the wavelength of a wave are never negative).
\<close>

definition number_divide :: "real \<Rightarrow> real \<Rightarrow> number" where
  "number_divide a b =
    (if b = 0 then (if a = 0 then NaN else if 0 < a then PosInfinity else NegInfinity)
     else Finite (a / b))"

fun number_times :: "number \<Rightarrow> real \<Rightarrow> number" where
  "number_times (Finite a) r = Finite (a * r)"
| "number_times PosInfinity r = (if r = 0 then NaN else if 0 < r then PosInfinity else NegInfinity)"
| "number_times NegInfinity r = (if r = 0 then NaN else if 0 < r then NegInfinity else PosInfinity)"
| "number_times NaN r = NaN"

fun number_plus :: "number \<Rightarrow> real \<Rightarrow> number" where
  "number_plus (Finite a) r = Finite (a + r)"
| "number_plus PosInfinity r = PosInfinity"
| "number_plus NegInfinity r = NegInfinity"
| "number_plus NaN r = NaN"

record Canvas =
  width :: real
  height :: real

record Mouse =
  mouse_x :: "real option"
  mouse_y :: "real option"
  mouse_radius :: real

record Particle =
  pos_x :: real
  pos_y :: real
  baseRadius :: real
  radius :: real
  color :: string
  vel_dx :: real
  vel_dy :: real
  baseX :: real
  baseY :: real
  density :: real

record Wave =
  timeModifier :: real
  baseAmplitude :: real
  amplitude :: number
  wavelength :: real
  wave_color :: string
  yOffset :: real

text \<open>What the browser window reports when the canvas is resized.\<close>

record Window =
  innerWidth :: real
  innerHeight :: real
  parentHeight :: "real option"
  isDarkMode :: bool

text \<open>What one frame paints: discs, connection lines and filled wave paths.\<close>

record Disc =
  disc_x :: real
  disc_y :: real
  disc_radius :: real
  disc_fillStyle :: string

record Stroke =
  lineColor :: string
  opacityValue :: real
  from_x :: real
  from_y :: real
  to_x :: real
  to_y :: real

record Fill =
  fillStyle :: string
  path :: "(real \<times> number) list"

section \<open>Pointer tracking\<close>

definition mouse_initial :: Mouse where
  "mouse_initial = \<lparr>mouse_x = None, mouse_y = None, mouse_radius = 150\<rparr>"

definition handleMouseMove :: "Mouse \<Rightarrow> real \<Rightarrow> real \<Rightarrow> Mouse" where
  "handleMouseMove m clientX clientY = m\<lparr>mouse_x := Some clientX, mouse_y := Some clientY\<rparr>"

section \<open>Particles\<close>

definition draw :: "Particle \<Rightarrow> Disc" where
  "draw p = \<lparr>disc_x = pos_x p, disc_y = pos_y p, disc_radius = radius p,
              disc_fillStyle = color p\<rparr>"

text \<open>\<open>Particle.update\<close> without the final call of \<open>draw\<close>, which does not change the particle.\<close>

definition update :: "Canvas \<Rightarrow> Mouse \<Rightarrow> AnimationType \<Rightarrow> Particle \<Rightarrow> Particle" where
  "update cv m ty p =
    (let dx1 = (if pos_x p + radius p > width cv \<or> pos_x p - radius p < 0
                then - vel_dx p else vel_dx p);
         dy1 = (if pos_y p + radius p > height cv \<or> pos_y p - radius p < 0
                then - vel_dy p else vel_dy p);
         x1 = pos_x p + dx1;
         y1 = pos_y p + dy1;
         p1 = p\<lparr>pos_x := x1, pos_y := y1, vel_dx := dx1, vel_dy := dy1\<rparr>
     in case mouse_x m of
          None \<Rightarrow> p1
        | Some mx \<Rightarrow>
           (case mouse_y m of
              None \<Rightarrow> p1
            | Some my \<Rightarrow>
               (let dxMouse = mx - x1;
                    dyMouse = my - y1;
                    distance = sqrt (dxMouse * dxMouse + dyMouse * dyMouse)
                in case ty of
                     Network \<Rightarrow>
                       if distance < mouse_radius m
                       then p1\<lparr>pos_x := x1 - dxMouse / 20, pos_y := y1 - dyMouse / 20\<rparr>
                       else p1
                   | Dots \<Rightarrow>
                       if distance < mouse_radius m
                       then p1\<lparr>radius := min (baseRadius p * 3)
                                            (baseRadius p + (mouse_radius m - distance) / 10)\<rparr>
                       else if radius p > baseRadius p
                       then p1\<lparr>radius := radius p - 1 / 10\<rparr>
                       else p1
                   | Waves \<Rightarrow> p1)))"

text \<open>
  \<open>Math.random\<close> is a sequence \<open>rand\<close> of reals in \<open>[0, 1)\<close>; particle \<open>i\<close> consumes six
  values in the order of the source: radius, x, y, dx, dy and, in the constructor, density.
\<close>

definition newParticle ::
  "Canvas \<Rightarrow> AnimationType \<Rightarrow> (nat \<Rightarrow> real) \<Rightarrow> nat \<Rightarrow> Particle" where
  "newParticle cv ty rand i =
    (let speed = (if ty = Dots then 2 / 10 else 4 / 10);
         r = (if ty = Network then rand (6 * i) * 2 + 1 else rand (6 * i) * (5 / 2) + 1);
         x0 = rand (6 * i + 1) * (width cv - r * 2) + r;
         y0 = rand (6 * i + 2) * (height cv - r * 2) + r;
         dx0 = (rand (6 * i + 3) - 1 / 2) * speed;
         dy0 = (rand (6 * i + 4) - 1 / 2) * speed;
         c = (if i mod 3 = 0 then ''rgba(123, 62, 240, 0.85)'' else ''rgba(106, 236, 255, 0.85)'')
     in \<lparr>pos_x = x0, pos_y = y0, baseRadius = r, radius = r, color = c,
         vel_dx = dx0, vel_dy = dy0, baseX = x0, baseY = y0,
         density = rand (6 * i + 5) * 30 + 1\<rparr>)"

definition particleCount :: "Window \<Rightarrow> AnimationType \<Rightarrow> nat" where
  "particleCount win ty =
    (let isMobile = innerWidth win < 768
     in if ty = Network then (if isMobile then 40 else 80) else (if isMobile then 60 else 180))"

text \<open>
  \<open>initParticles\<close> begins with \<open>particles = []\<close>; the argument \<open>old\<close> is the array it
  replaces.
\<close>

definition initParticles ::
  "Window \<Rightarrow> Canvas \<Rightarrow> AnimationType \<Rightarrow> (nat \<Rightarrow> real) \<Rightarrow> Particle list \<Rightarrow> Particle list" where
  "initParticles win cv ty rand old =
    [] @ map (newParticle cv ty rand) [0..<particleCount win ty]"

section \<open>Connection lines\<close>

text \<open>
  The loops of \<open>connect\<close> run \<open>a\<close> over all indices and \<open>b\<close> from \<open>a\<close> (not from
  \<open>a + 1\<close>) upwards. The colour test \<open>mouse.x && mouse.y && ...\<close> is a truthiness
  test: \<open>undefined\<close> and \<open>0\<close> are both falsy. The result lists the lines in the order
  in which they are stroked.
\<close>

definition connect :: "Canvas \<Rightarrow> Mouse \<Rightarrow> Particle list \<Rightarrow> Stroke list" where
  "connect cv m ps =
    (let connectDistance = width cv / 8
     in concat (map (\<lambda>a. concat (map (\<lambda>b.
          (let distance = sqrt ((pos_x (ps ! a) - pos_x (ps ! b))\<^sup>2
                                + (pos_y (ps ! a) - pos_y (ps ! b))\<^sup>2)
           in if distance < connectDistance
              then [\<lparr>lineColor =
                       (case mouse_x m of
                          None \<Rightarrow> ''rgba(106, 236, 255, ''
                        | Some mx \<Rightarrow>
                           (case mouse_y m of
                              None \<Rightarrow> ''rgba(106, 236, 255, ''
                            | Some my \<Rightarrow>
                                if mx \<noteq> 0 \<and> my \<noteq> 0
                                   \<and> sqrt ((mx - pos_x (ps ! a))\<^sup>2
                                           + (my - pos_y (ps ! a))\<^sup>2) < mouse_radius m
                                then ''rgba(123, 62, 240, '' else ''rgba(106, 236, 255, '')),
                      opacityValue = 1 - distance / connectDistance,
                      from_x = pos_x (ps ! a), from_y = pos_y (ps ! a),
                      to_x = pos_x (ps ! b), to_y = pos_y (ps ! b)\<rparr>]
              else [])) [a..<length ps])) [0..<length ps]))"

section \<open>Waves\<close>

text \<open>Wave \<open>i\<close> consumes five random values, in the order of the object literal.\<close>

definition waveColors :: "bool \<Rightarrow> string list" where
  "waveColors dark =
    (if dark
     then [''rgba(123, 62, 240, 0.5)'', ''rgba(106, 236, 255, 0.5)'', ''rgba(123, 62, 240, 0.35)'']
     else [''rgba(123, 62, 240, 0.4)'', ''rgba(106, 236, 255, 0.4)'', ''rgba(123, 62, 240, 0.25)''])"

definition initWaves :: "Window \<Rightarrow> Canvas \<Rightarrow> (nat \<Rightarrow> real) \<Rightarrow> Wave list \<Rightarrow> Wave list" where
  "initWaves win cv rand old =
    (let colors = waveColors (isDarkMode win)
     in [] @ map (\<lambda>i. \<lparr>timeModifier = rand (5 * i) * (4 / 10) + 6 / 10,
                        baseAmplitude = rand (5 * i + 1) * 60 + 50,
                        amplitude = Finite (rand (5 * i + 2) * 60 + 50),
                        wavelength = rand (5 * i + 3) * 200 + 250,
                        wave_color = colors ! i,
                        yOffset = rand (5 * i + 4) * height cv / 4\<rparr>) [0..<length colors])"

text \<open>
  The pointer interaction of \<open>drawWaves\<close> for the wave at position \<open>index\<close>. On a canvas
  of height \<open>0\<close> the quotient \<open>mouse.y / canvas.height\<close> is \<open>NaN\<close> or an infinity, and so is
  the amplitude that is stored.
\<close>

definition waveInteraction :: "Canvas \<Rightarrow> Mouse \<Rightarrow> nat \<Rightarrow> Wave \<Rightarrow> Wave" where
  "waveInteraction cv m index wave =
    (case mouse_y m of
       None \<Rightarrow> wave
     | Some my \<Rightarrow>
        (let influence = number_plus (number_times (number_divide my (height cv)) 2) (- 1)
         in wave\<lparr>amplitude :=
               number_plus (number_times (number_times influence 20) (real index + 1))
                 (baseAmplitude wave)\<rparr>))"

text \<open>
  The path of one wave: the loop variable \<open>i\<close> runs over the integers from \<open>0\<close> that are
  below \<open>canvas.width\<close>. \<open>Math.sin\<close> of an infinity or of \<open>NaN\<close> is \<open>NaN\<close>, and so is every
  number computed from it.
\<close>

definition wavePath :: "Canvas \<Rightarrow> real \<Rightarrow> Wave \<Rightarrow> Fill" where
  "wavePath cv t wave =
    \<lparr>fillStyle = wave_color wave,
     path = (0, Finite (height cv / 2))
            # map (\<lambda>i. (real i,
                         (case number_plus (number_divide (real i) (wavelength wave))
                                 (t * timeModifier wave) of
                            Finite a \<Rightarrow>
                              number_plus
                                (number_plus
                                  (number_plus (number_times (amplitude wave) (sin a))
                                     (height cv / 2))
                                  (yOffset wave))
                                (- 150)
                          | _ \<Rightarrow> NaN)))
                  [0..<nat \<lceil>width cv\<rceil>]
            @ [(width cv, Finite (height cv)), (0, Finite (height cv))]\<rparr>"

text \<open>\<open>drawWaves\<close> returns the advanced clock, the updated waves and the fills it paints.\<close>

definition drawWaves ::
  "Canvas \<Rightarrow> Mouse \<Rightarrow> real \<Rightarrow> Wave list \<Rightarrow> real \<times> Wave list \<times> Fill list" where
  "drawWaves cv m t ws =
    (let t1 = t + 15 / 1000;
         ws1 = map (\<lambda>index. waveInteraction cv m index (ws ! index)) [0..<length ws]
     in (t1, ws1, map (wavePath cv t1) ws1))"

section \<open>Resizing and the animation loop\<close>

record State =
  particles :: "Particle list"
  waves :: "Wave list"
  time :: real
  canvas :: Canvas

text \<open>
  \<open>parentHeight && parentHeight > 0\<close>: an absent parent gives \<open>undefined\<close>, which is
  falsy, as is a height of \<open>0\<close>.
\<close>

definition resizeCanvas :: "Window \<Rightarrow> AnimationType \<Rightarrow> (nat \<Rightarrow> real) \<Rightarrow> State \<Rightarrow> State" where
  "resizeCanvas win ty rand st =
    (let cv = \<lparr>width = innerWidth win,
               height = (case parentHeight win of
                           None \<Rightarrow> innerHeight win
                         | Some h \<Rightarrow> if h \<noteq> 0 \<and> h > 0 then h else innerHeight win)\<rparr>
     in case ty of
          Waves \<Rightarrow> st\<lparr>canvas := cv, waves := initWaves win cv rand (waves st)\<rparr>
        | _ \<Rightarrow> st\<lparr>canvas := cv, particles := initParticles win cv ty rand (particles st)\<rparr>)"

text \<open>One frame: the new state and what is painted after the surface is cleared.\<close>

definition animate ::
  "AnimationType \<Rightarrow> Mouse \<Rightarrow> State \<Rightarrow> State \<times> Disc list \<times> Stroke list \<times> Fill list" where
  "animate ty m st =
    (case ty of
       Network \<Rightarrow>
         (let ps = map (update (canvas st) m ty) (particles st)
          in (st\<lparr>particles := ps\<rparr>, map draw ps, connect (canvas st) m ps, []))
     | Dots \<Rightarrow>
         (let ps = map (update (canvas st) m ty) (particles st)
          in (st\<lparr>particles := ps\<rparr>, map draw ps, [], []))
     | Waves \<Rightarrow>
         (case drawWaves (canvas st) m (time st) (waves st) of
            (t1, ws1, fills) \<Rightarrow> (st\<lparr>time := t1, waves := ws1\<rparr>, [], [], fills)))"

section \<open>Notions used in the statements\<close>

text \<open>
  The reading of ``the leading edge would otherwise exit the surface bounds'' that the
  specification suggests: the edge that faces the direction of travel lies outside
  \<open>[0, extent]\<close> once the velocity has been added.
\<close>

definition spec_leading_edge_exits :: "real \<Rightarrow> real \<Rightarrow> real \<Rightarrow> real \<Rightarrow> bool" where
  "spec_leading_edge_exits extent pos r v \<longleftrightarrow>
     (0 < v \<and> extent < pos + v + r) \<or> (v < 0 \<and> pos + v - r < 0)"

text \<open>
  The invariant of one axis under reflection without clamping: the speed is \<open>s\<close>, and a
  position beyond a bound is moving outwards and is at most one step beyond it.
\<close>

definition axis_inv :: "real \<Rightarrow> real \<Rightarrow> real \<Rightarrow> real \<Rightarrow> real \<Rightarrow> bool" where
  "axis_inv w r s x v \<longleftrightarrow>
     2 * r \<le> w \<and> \<bar>v\<bar> = s \<and> (w - r < x \<longrightarrow> 0 < v \<and> x \<le> w - r + s)
       \<and> (x < r \<longrightarrow> v < 0 \<and> r - s \<le> x)"

text \<open>
  The particle after the reflection test and the velocity step of \<open>update\<close>, before the
  pointer is looked at; the distance of the recorded pointer to a particle (none while
  no pointer-move event has been received); and the two conditions on one frame under
  which the pointer takes no part in the motion: \<open>pointer_idle\<close> (the pointer is absent, or
  at a distance of at least \<open>influenceRadius\<close> from the advanced particle) and
  \<open>pointer_far\<close> (it is present and at such a distance).
\<close>

definition advance :: "Canvas \<Rightarrow> Particle \<Rightarrow> Particle" where
  "advance cv p =
    (let dx1 = (if pos_x p + radius p > width cv \<or> pos_x p - radius p < 0
                then - vel_dx p else vel_dx p);
         dy1 = (if pos_y p + radius p > height cv \<or> pos_y p - radius p < 0
                then - vel_dy p else vel_dy p)
     in p\<lparr>pos_x := pos_x p + dx1, pos_y := pos_y p + dy1, vel_dx := dx1, vel_dy := dy1\<rparr>)"

definition pointer_distance :: "Mouse \<Rightarrow> Particle \<Rightarrow> real option" where
  "pointer_distance m q =
    (case mouse_x m of
       None \<Rightarrow> None
     | Some mx \<Rightarrow>
        (case mouse_y m of
           None \<Rightarrow> None
         | Some my \<Rightarrow>
            Some (sqrt ((mx - pos_x q) * (mx - pos_x q) + (my - pos_y q) * (my - pos_y q)))))"

definition pointer_idle :: "Canvas \<Rightarrow> Mouse \<Rightarrow> Particle \<Rightarrow> bool" where
  "pointer_idle cv m p =
    (case pointer_distance m (advance cv p) of None \<Rightarrow> True | Some d \<Rightarrow> mouse_radius m \<le> d)"

definition pointer_far :: "Canvas \<Rightarrow> Mouse \<Rightarrow> Particle \<Rightarrow> bool" where
  "pointer_far cv m p =
    (case pointer_distance m (advance cv p) of None \<Rightarrow> False | Some d \<Rightarrow> mouse_radius m \<le> d)"

text \<open>
  A run of frames for one particle, with the pointer state of each frame, and a condition
  that holds on every frame of the run.
\<close>

fun frames :: "Canvas \<Rightarrow> AnimationType \<Rightarrow> Mouse list \<Rightarrow> Particle \<Rightarrow> Particle" where
  "frames cv ty [] p = p"
| "frames cv ty (m # ms) p = frames cv ty ms (update cv m ty p)"

fun all_frames ::
  "(Mouse \<Rightarrow> Particle \<Rightarrow> bool) \<Rightarrow> Canvas \<Rightarrow> AnimationType \<Rightarrow> Mouse list \<Rightarrow> Particle \<Rightarrow> bool" where
  "all_frames P cv ty [] p = True"
| "all_frames P cv ty (m # ms) p = (P m p \<and> all_frames P cv ty ms (update cv m ty p))"

definition particle_inv :: "Canvas \<Rightarrow> real \<Rightarrow> real \<Rightarrow> Particle \<Rightarrow> bool" where
  "particle_inv cv sx sy p \<longleftrightarrow>
     axis_inv (width cv) (radius p) sx (pos_x p) (vel_dx p)
       \<and> axis_inv (height cv) (radius p) sy (pos_y p) (vel_dy p)"


text \<open>
  The Euclidean distance of two particles, the colour prefix that \<open>connect\<close> chooses for
  a line that starts at \<open>pa\<close>, the line it strokes for the pair \<open>(pa, pb)\<close>, and the
  length of a stroked line.
\<close>

definition particleDistance :: "Particle \<Rightarrow> Particle \<Rightarrow> real" where
  "particleDistance pa pb = sqrt ((pos_x pa - pos_x pb)\<^sup>2 + (pos_y pa - pos_y pb)\<^sup>2)"

definition strokeColor :: "Mouse \<Rightarrow> Particle \<Rightarrow> string" where
  "strokeColor m pa =
    (case mouse_x m of
       None \<Rightarrow> ''rgba(106, 236, 255, ''
     | Some mx \<Rightarrow>
        (case mouse_y m of
           None \<Rightarrow> ''rgba(106, 236, 255, ''
         | Some my \<Rightarrow>
             if mx \<noteq> 0 \<and> my \<noteq> 0
                \<and> sqrt ((mx - pos_x pa)\<^sup>2 + (my - pos_y pa)\<^sup>2) < mouse_radius m
             then ''rgba(123, 62, 240, '' else ''rgba(106, 236, 255, ''))"

definition pairStroke :: "Canvas \<Rightarrow> Mouse \<Rightarrow> Particle \<Rightarrow> Particle \<Rightarrow> Stroke" where
  "pairStroke cv m pa pb =
    \<lparr>lineColor = strokeColor m pa,
     opacityValue = 1 - particleDistance pa pb / (width cv / 8),
     from_x = pos_x pa, from_y = pos_y pa, to_x = pos_x pb, to_y = pos_y pb\<rparr>"

definition stroke_length :: "Stroke \<Rightarrow> real" where
  "stroke_length s = sqrt ((from_x s - to_x s)\<^sup>2 + (from_y s - to_y s)\<^sup>2)"

subsection \<open>Concrete inputs\<close>

definition canvas_800x600 :: Canvas where
  "canvas_800x600 = \<lparr>width = 800, height = 600\<rparr>"

definition rand_half :: "nat \<Rightarrow> real" where
  "rand_half i = 1 / 2"

definition window_desktop :: Window where
  "window_desktop = \<lparr>innerWidth = 1200, innerHeight = 800, parentHeight = Some 600,
      isDarkMode = False\<rparr>"

definition window_mobile :: Window where
  "window_mobile = \<lparr>innerWidth = 500, innerHeight = 800, parentHeight = None,
      isDarkMode = True\<rparr>"

definition particle_at_edge :: Particle where
  "particle_at_edge = \<lparr>pos_x = 798, pos_y = 300, baseRadius = 2, radius = 2,
      color = ''rgba(123, 62, 240, 0.85)'', vel_dx = 1 / 8, vel_dy = 0,
      baseX = 798, baseY = 300, density = 1\<rparr>"

definition particle_outside :: Particle where
  "particle_outside = \<lparr>pos_x = 801, pos_y = 300, baseRadius = 2, radius = 2,
      color = ''rgba(123, 62, 240, 0.85)'', vel_dx = - 1 / 8, vel_dy = 1 / 8,
      baseX = 798, baseY = 300, density = 1\<rparr>"

definition particle_magnified :: Particle where
  "particle_magnified = \<lparr>pos_x = 100, pos_y = 100, baseRadius = 2, radius = 5 / 2,
      color = ''rgba(106, 236, 255, 0.85)'', vel_dx = 0, vel_dy = 0,
      baseX = 100, baseY = 100, density = 1\<rparr>"

definition particle_scenario :: Particle where
  "particle_scenario = \<lparr>pos_x = 410, pos_y = 300, baseRadius = 2, radius = 2,
      color = ''rgba(106, 236, 255, 0.85)'', vel_dx = 0, vel_dy = 0,
      baseX = 410, baseY = 300, density = 1\<rparr>"

definition particle_pair :: "Particle list" where
  "particle_pair =
    [\<lparr>pos_x = 50, pos_y = 100, baseRadius = 2, radius = 2,
       color = ''rgba(123, 62, 240, 0.85)'', vel_dx = 0, vel_dy = 0,
       baseX = 50, baseY = 100, density = 1\<rparr>,
     \<lparr>pos_x = 60, pos_y = 100, baseRadius = 2, radius = 2,
       color = ''rgba(106, 236, 255, 0.85)'', vel_dx = 0, vel_dy = 0,
       baseX = 60, baseY = 100, density = 1\<rparr>]"

definition wave_sample :: "Wave list" where
  "wave_sample =
    [\<lparr>timeModifier = 7 / 10, baseAmplitude = 60, amplitude = Finite 95, wavelength = 300,
       wave_color = ''rgba(123, 62, 240, 0.4)'', yOffset = 10\<rparr>,
     \<lparr>timeModifier = 8 / 10, baseAmplitude = 80, amplitude = Finite 70, wavelength = 350,
       wave_color = ''rgba(106, 236, 255, 0.4)'', yOffset = 20\<rparr>,
     \<lparr>timeModifier = 9 / 10, baseAmplitude = 100, amplitude = Finite 55, wavelength = 400,
       wave_color = ''rgba(123, 62, 240, 0.25)'', yOffset = 30\<rparr>]"

definition particle_near_wall :: Particle where
  "particle_near_wall = \<lparr>pos_x = 3, pos_y = 300, baseRadius = 2, radius = 2,
      color = ''rgba(106, 236, 255, 0.85)'', vel_dx = 0, vel_dy = 0,
      baseX = 3, baseY = 300, density = 1\<rparr>"


definition window_collapsed :: Window where
  "window_collapsed = \<lparr>innerWidth = 800, innerHeight = 0, parentHeight = None,
      isDarkMode = False\<rparr>"

definition state_initial :: State where
  "state_initial = \<lparr>particles = [], waves = [], time = 0,
      canvas = \<lparr>width = 300, height = 150\<rparr>\<rparr>"

definition state_collapsed :: State where
  "state_collapsed = resizeCanvas window_collapsed Waves rand_half state_initial"

section \<open>Properties of the particle update\<close>

lemma update_absent:
  assumes "mouse_x m = None \<or> mouse_y m = None"
  shows "update cv m ty p =
     p\<lparr>pos_x := pos_x p + (if pos_x p + radius p > width cv \<or> pos_x p - radius p < 0
                               then - vel_dx p else vel_dx p),
       pos_y := pos_y p + (if pos_y p + radius p > height cv \<or> pos_y p - radius p < 0
                               then - vel_dy p else vel_dy p),
       vel_dx := (if pos_x p + radius p > width cv \<or> pos_x p - radius p < 0
                               then - vel_dx p else vel_dx p),
       vel_dy := (if pos_y p + radius p > height cv \<or> pos_y p - radius p < 0
                               then - vel_dy p else vel_dy p)\<rparr>"
  using assms by (cases "mouse_x m"; cases "mouse_y m") (simp_all add: update_def Let_def)

lemma update_vel_dx:
  "vel_dx (update cv m ty p) =
     (if pos_x p + radius p > width cv \<or> pos_x p - radius p < 0 then - vel_dx p else vel_dx p)"
  by (cases "mouse_x m"; cases "mouse_y m"; cases ty) (simp_all add: update_def Let_def)

lemma update_vel_dy:
  "vel_dy (update cv m ty p) =
     (if pos_y p + radius p > height cv \<or> pos_y p - radius p < 0 then - vel_dy p else vel_dy p)"
  by (cases "mouse_x m"; cases "mouse_y m"; cases ty) (simp_all add: update_def Let_def)


lemma update_absent_radius:
  assumes "mouse_x m = None \<or> mouse_y m = None"
  shows "radius (update cv m ty p) = radius p"
  by (simp add: update_absent [OF assms])

lemma update_dots_pos:
  "pos_x (update cv m Dots p) = pos_x p + vel_dx (update cv m Dots p)"
  "pos_y (update cv m Dots p) = pos_y p + vel_dy (update cv m Dots p)"
  by (cases "mouse_x m"; cases "mouse_y m"; simp add: update_def Let_def)+

lemma update_dots_radius:
  assumes "mouse_x m = Some mx" "mouse_y m = Some my"
  shows "radius (update cv m Dots p) =
    (let d = sqrt ((mx - pos_x (update cv m Dots p))\<^sup>2 + (my - pos_y (update cv m Dots p))\<^sup>2)
     in if d < mouse_radius m
        then min (baseRadius p * 3) (baseRadius p + (mouse_radius m - d) / 10)
        else if baseRadius p < radius p then radius p - 1 / 10 else radius p)"
  using assms by (simp add: update_def Let_def power2_eq_square)

lemma update_network_pos:
  assumes "mouse_x m = Some mx" and "mouse_y m = Some my"
  shows "pos_x (update cv m Network p) =
          (if sqrt ((mx - (pos_x p + vel_dx (update cv m Network p)))
                      * (mx - (pos_x p + vel_dx (update cv m Network p)))
                    + (my - (pos_y p + vel_dy (update cv m Network p)))
                      * (my - (pos_y p + vel_dy (update cv m Network p)))) < mouse_radius m
           then pos_x p + vel_dx (update cv m Network p)
                - (mx - (pos_x p + vel_dx (update cv m Network p))) / 20
           else pos_x p + vel_dx (update cv m Network p))"
    and "pos_y (update cv m Network p) =
          (if sqrt ((mx - (pos_x p + vel_dx (update cv m Network p)))
                      * (mx - (pos_x p + vel_dx (update cv m Network p)))
                    + (my - (pos_y p + vel_dy (update cv m Network p)))
                      * (my - (pos_y p + vel_dy (update cv m Network p)))) < mouse_radius m
           then pos_y p + vel_dy (update cv m Network p)
                - (my - (pos_y p + vel_dy (update cv m Network p))) / 20
           else pos_y p + vel_dy (update cv m Network p))"
  unfolding update_vel_dx update_vel_dy using assms
  by (simp_all add: update_def Let_def)

lemma sqrt_100: "sqrt 100 = 10"
  by (rule real_sqrt_unique) simp_all

lemma scenario_step:
  assumes "pos_x p = 410" "pos_y p = 300" "vel_dx p = 0" "vel_dy p = 0" "baseRadius p = 2"
    "radius p \<le> 6" "0 \<le> radius p"
  shows "update canvas_800x600 (handleMouseMove mouse_initial 400 300) Dots p = p\<lparr>radius := 6\<rparr>"
  using assms
  by (simp add: update_def Let_def handleMouseMove_def mouse_initial_def canvas_800x600_def
      sqrt_100)

lemma update_cases:
  "update cv m ty p =
    (case pointer_distance m (advance cv p) of
       None \<Rightarrow> advance cv p
     | Some d \<Rightarrow>
        (case ty of
           Network \<Rightarrow>
             if d < mouse_radius m
             then (advance cv p)\<lparr>pos_x := pos_x (advance cv p)
                                     - (the (mouse_x m) - pos_x (advance cv p)) / 20,
                                  pos_y := pos_y (advance cv p)
                                     - (the (mouse_y m) - pos_y (advance cv p)) / 20\<rparr>
             else advance cv p
         | Dots \<Rightarrow>
             if d < mouse_radius m
             then (advance cv p)\<lparr>radius := min (baseRadius p * 3)
                                              (baseRadius p + (mouse_radius m - d) / 10)\<rparr>
             else if radius p > baseRadius p
             then (advance cv p)\<lparr>radius := radius p - 1 / 10\<rparr>
             else advance cv p
         | Waves \<Rightarrow> advance cv p))"
  by (cases "mouse_x m"; cases "mouse_y m"; cases ty)
     (simp_all add: update_def advance_def pointer_distance_def Let_def)

lemma advance_fields:
  "radius (advance cv p) = radius p"
  "baseRadius (advance cv p) = baseRadius p"
  "pos_x (advance cv p) = pos_x p + vel_dx (advance cv p)"
  "pos_y (advance cv p) = pos_y p + vel_dy (advance cv p)"
  "vel_dx (advance cv p) =
     (if width cv < pos_x p + radius p \<or> pos_x p - radius p < 0 then - vel_dx p else vel_dx p)"
  "vel_dy (advance cv p) =
     (if height cv < pos_y p + radius p \<or> pos_y p - radius p < 0 then - vel_dy p else vel_dy p)"
  by (simp_all add: advance_def Let_def)

lemma update_idle:
  assumes "pointer_idle cv m p"
  shows "update cv m ty p = (advance cv p)\<lparr>radius := radius (update cv m ty p)\<rparr>"
    and "radius (update cv m ty p) \<le> radius p"
    and "ty \<noteq> Dots \<Longrightarrow> radius (update cv m ty p) = radius p"
  using assms unfolding update_cases pointer_idle_def
  by (cases "pointer_distance m (advance cv p)"; cases ty; simp add: advance_fields)+


lemma pointer_far_idle: "pointer_far cv m p \<Longrightarrow> pointer_idle cv m p"
  by (cases "pointer_distance m (advance cv p)") (simp_all add: pointer_far_def pointer_idle_def)

subsection \<open>Reflection keeps a particle within one step of the bounds\<close>

lemma axis_inv_step:
  assumes "axis_inv w r s x v"
  shows "axis_inv w r s (x + (if x + r > w \<or> x - r < 0 then - v else v))
                        (if x + r > w \<or> x - r < 0 then - v else v)"
  using assms unfolding axis_inv_def by (auto split: if_splits)

lemma axis_inv_bounds:
  assumes "axis_inv w r s x v"
  shows "r - s \<le> x \<and> x \<le> w - r + s"
  using assms unfolding axis_inv_def by (auto simp: abs_if split: if_splits)

lemma axis_inv_start:
  assumes "r \<le> x" "x \<le> w - r"
  shows "axis_inv w r \<bar>v\<bar> x v"
  using assms unfolding axis_inv_def by auto

lemma axis_inv_smaller_radius:
  assumes "axis_inv w r s x v" and "r' \<le> r"
  shows "axis_inv w r' s x v"
  using assms unfolding axis_inv_def by auto

lemma particle_inv_update:
  assumes "pointer_idle cv m p" and "particle_inv cv sx sy p"
  shows "particle_inv cv sx sy (update cv m ty p)"
proof -
  from assms(2) have ix: "axis_inv (width cv) (radius p) sx (pos_x p) (vel_dx p)"
    and iy: "axis_inv (height cv) (radius p) sy (pos_y p) (vel_dy p)"
    by (simp_all add: particle_inv_def)
  have ax: "axis_inv (width cv) (radius p) sx (pos_x (advance cv p)) (vel_dx (advance cv p))"
    using axis_inv_step [OF ix] by (simp add: advance_def Let_def)
  have ay: "axis_inv (height cv) (radius p) sy (pos_y (advance cv p)) (vel_dy (advance cv p))"
    using axis_inv_step [OF iy] by (simp add: advance_def Let_def)
  have e: "update cv m ty p = (advance cv p)\<lparr>radius := radius (update cv m ty p)\<rparr>"
    by (rule update_idle(1) [OF assms(1)])
  have le: "radius (update cv m ty p) \<le> radius p"
    by (rule update_idle(2) [OF assms(1)])
  have px: "pos_x (update cv m ty p) = pos_x (advance cv p)"
    and py: "pos_y (update cv m ty p) = pos_y (advance cv p)"
    and vx: "vel_dx (update cv m ty p) = vel_dx (advance cv p)"
    and vy: "vel_dy (update cv m ty p) = vel_dy (advance cv p)"
    by (subst e, simp)+
  show ?thesis
    unfolding particle_inv_def px py vx vy
    using axis_inv_smaller_radius [OF ax le] axis_inv_smaller_radius [OF ay le] by simp
qed

lemma particle_inv_frames:
  assumes "all_frames (pointer_idle cv) cv ty ms p" and "particle_inv cv sx sy p"
  shows "particle_inv cv sx sy (frames cv ty ms p)"
  using assms
proof (induction ms arbitrary: p)
  case Nil
  then show ?case by simp
next
  case (Cons m ms)
  then show ?case by (simp add: particle_inv_update)
qed

lemma radius_frames_idle:
  assumes "all_frames (pointer_idle cv) cv ty ms p"
  shows "radius (frames cv ty ms p) \<le> radius p"
    and "ty \<noteq> Dots \<Longrightarrow> radius (frames cv ty ms p) = radius p"
  using assms
proof (induction ms arbitrary: p)
  case Nil
  {
    case 1
    then show ?case by simp
  next
    case 2
    then show ?case by simp
  }
next
  case (Cons m ms)
  {
    case 1
    then have i: "pointer_idle cv m p" and r: "all_frames (pointer_idle cv) cv ty ms (update cv m ty p)"
      by simp_all
    from Cons.IH(1) [OF r] update_idle(2) [OF i, of ty] show ?case by simp
  next
    case 2
    then have i: "pointer_idle cv m p" and r: "all_frames (pointer_idle cv) cv ty ms (update cv m ty p)"
      by simp_all
    from Cons.IH(2) [OF 2(1) r] update_idle(3) [OF i 2(1)] show ?case by simp
  }
qed

text \<open>
  C1, as stated, fails: a particle that lies within \<open>[radius, width - radius]\<close> and touches
  the right bound is not reflected (the test is strict and looks at the position before
  the move), so the move takes it beyond \<open>width - radius\<close>. The pointer is absent here.
\<close>

theorem bounce_invariant_counterexample:
  "radius particle_at_edge \<le> pos_x particle_at_edge
   \<and> pos_x particle_at_edge \<le> width canvas_800x600 - radius particle_at_edge
   \<and> radius particle_at_edge \<le> pos_y particle_at_edge
   \<and> pos_y particle_at_edge \<le> height canvas_800x600 - radius particle_at_edge
   \<and> \<not> pos_x (update canvas_800x600 mouse_initial Network particle_at_edge)
          \<le> width canvas_800x600
             - radius (update canvas_800x600 mouse_initial Network particle_at_edge)"
  by (simp add: update_def mouse_initial_def canvas_800x600_def particle_at_edge_def Let_def)

text \<open>
  With the pointer present, the repulsion of \<open>network\<close> mode pushes a particle further
  out than one velocity step.
\<close>

lemma network_nudge_leaves_bounds:
  "pos_x (update canvas_800x600 (handleMouseMove mouse_initial 700 300) Network particle_at_edge)
     = 803 + 1 / 32
   \<and> width canvas_800x600 - radius particle_at_edge + \<bar>vel_dx particle_at_edge\<bar>
       < pos_x (update canvas_800x600 (handleMouseMove mouse_initial 700 300) Network
                 particle_at_edge)"
proof -
  have m: "mouse_x (handleMouseMove mouse_initial 700 300) = Some 700"
    "mouse_y (handleMouseMove mouse_initial 700 300) = Some 300"
    by (simp_all add: handleMouseMove_def)
  have v: "vel_dx (update canvas_800x600 (handleMouseMove mouse_initial 700 300) Network
                    particle_at_edge) = 1 / 8"
    "vel_dy (update canvas_800x600 (handleMouseMove mouse_initial 700 300) Network
                    particle_at_edge) = 0"
    by (simp_all add: update_vel_dx update_vel_dy canvas_800x600_def particle_at_edge_def)
  have "(700 - (798 + 1 / 8)) * (700 - (798 + 1 / 8)) + (300 - 300) * (300 - 300) < (150::real)\<^sup>2"
    by (simp add: power2_eq_square)
  then have d: "sqrt ((700 - (798 + 1 / 8)) * (700 - (798 + 1 / 8)) + (300 - 300) * (300 - 300))
                < (150::real)"
    by (rule real_less_lsqrt [rotated]) simp
  have "pos_x (update canvas_800x600 (handleMouseMove mouse_initial 700 300) Network
                particle_at_edge) = 803 + 1 / 32"
    unfolding update_network_pos(1) [OF m] v using d
    by (simp add: particle_at_edge_def handleMouseMove_def mouse_initial_def)
  then show ?thesis
    by (simp add: canvas_800x600_def particle_at_edge_def)
qed

text \<open>
  So does the magnification of \<open>dots\<close> mode: the radius grows around a particle that
  stays where it is.
\<close>

lemma dots_magnify_leaves_bounds:
  "radius particle_near_wall \<le> pos_x particle_near_wall
   \<and> radius (update canvas_800x600 (handleMouseMove mouse_initial 13 300) Dots
               particle_near_wall) = 6
   \<and> pos_x (update canvas_800x600 (handleMouseMove mouse_initial 13 300) Dots
              particle_near_wall) = 3"
  by (simp add: update_def Let_def handleMouseMove_def mouse_initial_def canvas_800x600_def
      particle_near_wall_def sqrt_100)

text \<open>
  C1, amended: take a particle with \<open>radius \<le> x \<le> width - radius\<close> and
  \<open>radius \<le> y \<le> height - radius\<close> and any run of frames on each of which the pointer is
  absent or at a distance of at least \<open>influenceRadius\<close> from the advanced particle. After
  the run, in every mode, the radius has not grown (outside \<open>dots\<close> mode it is unchanged)
  and the position satisfies \<open>radius - |dx| \<le> x \<le> width - radius + |dx|\<close> and
  \<open>radius - |dy| \<le> y \<le> height - radius + |dy|\<close> for the current radius and the initial
  velocity. On every such frame the new position is the old position plus the (possibly
  reflected) velocity: it is never clamped, so a bound is passed by at most one velocity
  step.
\<close>

theorem bounce_overshoot_bound:
  assumes "all_frames (pointer_idle cv) cv ty ms p"
    and "radius p \<le> pos_x p" and "pos_x p \<le> width cv - radius p"
    and "radius p \<le> pos_y p" and "pos_y p \<le> height cv - radius p"
  shows "radius (frames cv ty ms p) \<le> radius p
    \<and> (ty \<noteq> Dots \<longrightarrow> radius (frames cv ty ms p) = radius p)
    \<and> radius (frames cv ty ms p) - \<bar>vel_dx p\<bar> \<le> pos_x (frames cv ty ms p)
    \<and> pos_x (frames cv ty ms p) \<le> width cv - radius (frames cv ty ms p) + \<bar>vel_dx p\<bar>
    \<and> radius (frames cv ty ms p) - \<bar>vel_dy p\<bar> \<le> pos_y (frames cv ty ms p)
    \<and> pos_y (frames cv ty ms p) \<le> height cv - radius (frames cv ty ms p) + \<bar>vel_dy p\<bar>
    \<and> (pointer_idle cv m q \<longrightarrow>
          pos_x (update cv m ty q) = pos_x q + vel_dx (update cv m ty q)
          \<and> pos_y (update cv m ty q) = pos_y q + vel_dy (update cv m ty q))"
proof -
  have "particle_inv cv \<bar>vel_dx p\<bar> \<bar>vel_dy p\<bar> p"
    unfolding particle_inv_def using assms(2-5) by (simp add: axis_inv_start)
  then have "particle_inv cv \<bar>vel_dx p\<bar> \<bar>vel_dy p\<bar> (frames cv ty ms p)"
    by (rule particle_inv_frames [OF assms(1)])
  then have b: "radius (frames cv ty ms p) - \<bar>vel_dx p\<bar> \<le> pos_x (frames cv ty ms p)
    \<and> pos_x (frames cv ty ms p) \<le> width cv - radius (frames cv ty ms p) + \<bar>vel_dx p\<bar>
    \<and> radius (frames cv ty ms p) - \<bar>vel_dy p\<bar> \<le> pos_y (frames cv ty ms p)
    \<and> pos_y (frames cv ty ms p) \<le> height cv - radius (frames cv ty ms p) + \<bar>vel_dy p\<bar>"
    unfolding particle_inv_def using axis_inv_bounds by blast
  have u: "pointer_idle cv m q \<longrightarrow>
          pos_x (update cv m ty q) = pos_x q + vel_dx (update cv m ty q)
          \<and> pos_y (update cv m ty q) = pos_y q + vel_dy (update cv m ty q)"
  proof
    assume i: "pointer_idle cv m q"
    have e: "update cv m ty q = (advance cv q)\<lparr>radius := radius (update cv m ty q)\<rparr>"
      by (rule update_idle(1) [OF i])
    have "pos_x (update cv m ty q) = pos_x (advance cv q)"
      "pos_y (update cv m ty q) = pos_y (advance cv q)"
      "vel_dx (update cv m ty q) = vel_dx (advance cv q)"
      "vel_dy (update cv m ty q) = vel_dy (advance cv q)"
      by (subst e, simp)+
    then show "pos_x (update cv m ty q) = pos_x q + vel_dx (update cv m ty q)
          \<and> pos_y (update cv m ty q) = pos_y q + vel_dy (update cv m ty q)"
      using advance_fields(3,4) [of cv q] by simp
  qed
  from radius_frames_idle [OF assms(1)] b u show ?thesis by blast
qed

theorem bounce_overshoot_bound_witness:
  "all_frames (pointer_idle canvas_800x600) canvas_800x600 Network
     [mouse_initial, handleMouseMove mouse_initial 100 300] particle_at_edge
   \<and> pos_x (frames canvas_800x600 Network [mouse_initial] particle_at_edge) = 798 + 1 / 8
   \<and> pos_x (frames canvas_800x600 Network
              [mouse_initial, handleMouseMove mouse_initial 100 300] particle_at_edge) = 798
   \<and> radius (frames canvas_800x600 Network
              [mouse_initial, handleMouseMove mouse_initial 100 300] particle_at_edge) = 2
   \<and> pos_x (update canvas_800x600 mouse_initial Network particle_at_edge)
       = pos_x particle_at_edge + vel_dx (update canvas_800x600 mouse_initial Network
                                           particle_at_edge)"
proof -
  let ?m = "handleMouseMove mouse_initial 100 300"
  let ?p1 = "particle_at_edge\<lparr>pos_x := 6385 / 8\<rparr>"
  have a0: "advance canvas_800x600 particle_at_edge = ?p1"
    by (simp add: advance_def Let_def particle_at_edge_def canvas_800x600_def)
  have i0: "pointer_idle canvas_800x600 mouse_initial particle_at_edge"
    by (simp add: pointer_idle_def pointer_distance_def mouse_initial_def)
  have u0: "update canvas_800x600 mouse_initial Network particle_at_edge = ?p1"
    unfolding update_cases a0 by (simp add: pointer_distance_def mouse_initial_def)
  have a1: "advance canvas_800x600 ?p1 = particle_at_edge\<lparr>vel_dx := - (1 / 8)\<rparr>"
    by (simp add: advance_def Let_def particle_at_edge_def canvas_800x600_def)
  have d1: "pointer_distance ?m (particle_at_edge\<lparr>vel_dx := - (1 / 8)\<rparr>) = Some 698"
  proof -
    have "sqrt 487204 = 698"
      by (rule real_sqrt_unique) simp_all
    then show ?thesis
      by (simp add: pointer_distance_def handleMouseMove_def particle_at_edge_def)
  qed
  have i1: "pointer_idle canvas_800x600 ?m ?p1"
    unfolding pointer_idle_def a1 d1 by (simp add: handleMouseMove_def mouse_initial_def)
  have u1: "update canvas_800x600 ?m Network ?p1 = particle_at_edge\<lparr>vel_dx := - (1 / 8)\<rparr>"
    unfolding update_cases a1 d1 by (simp add: handleMouseMove_def mouse_initial_def)
  have a: "all_frames (pointer_idle canvas_800x600) canvas_800x600 Network
             [mouse_initial, ?m] particle_at_edge"
    by (simp add: i0 u0 i1)
  have b: "radius particle_at_edge \<le> pos_x particle_at_edge"
    "pos_x particle_at_edge \<le> width canvas_800x600 - radius particle_at_edge"
    "radius particle_at_edge \<le> pos_y particle_at_edge"
    "pos_y particle_at_edge \<le> height canvas_800x600 - radius particle_at_edge"
    by (simp_all add: particle_at_edge_def canvas_800x600_def)
  have f1: "pos_x (frames canvas_800x600 Network [mouse_initial] particle_at_edge) = 798 + 1 / 8"
    by (simp add: u0)
  have f2: "pos_x (frames canvas_800x600 Network [mouse_initial, ?m] particle_at_edge) = 798"
  proof -
    have "frames canvas_800x600 Network [mouse_initial, ?m] particle_at_edge
            = particle_at_edge\<lparr>vel_dx := - (1 / 8)\<rparr>"
      by (simp add: u0 u1)
    then show ?thesis
      by (simp add: particle_at_edge_def)
  qed
  from bounce_overshoot_bound [OF a b, where m = mouse_initial and q = particle_at_edge] i0
  have "radius (frames canvas_800x600 Network [mouse_initial, ?m] particle_at_edge) = 2
     \<and> pos_x (update canvas_800x600 mouse_initial Network particle_at_edge)
       = pos_x particle_at_edge + vel_dx (update canvas_800x600 mouse_initial Network
                                           particle_at_edge)"
    by (simp add: particle_at_edge_def)
  with a f1 f2 show ?thesis by blast
qed

subsection \<open>Which frames reflect the velocity\<close>

text \<open>
  C4, as stated, fails: the particle touching the right bound moves right, its leading
  edge leaves the surface in this frame, and the velocity is not negated.
\<close>

theorem reflection_trigger_counterexample:
  "spec_leading_edge_exits (width canvas_800x600) (pos_x particle_at_edge)
      (radius particle_at_edge) (vel_dx particle_at_edge)
   \<and> vel_dx (update canvas_800x600 mouse_initial Network particle_at_edge)
       \<noteq> - vel_dx particle_at_edge"
  by (simp add: spec_leading_edge_exits_def update_vel_dx canvas_800x600_def
      particle_at_edge_def)

text \<open>
  C4, amended: on each axis the update negates the velocity component exactly when, before
  the move, the particle already reaches beyond the surface on that axis
  (\<open>x + radius > width\<close> or \<open>x - radius < 0\<close>, likewise for \<open>y\<close>), whatever its direction of
  travel, and leaves the component unchanged otherwise; in both cases the magnitude of the
  component is preserved. This holds in every mode and for every pointer state.
\<close>

theorem reflection_on_bounds_violation:
  "vel_dx (update cv m ty p) =
     (if width cv < pos_x p + radius p \<or> pos_x p - radius p < 0 then - vel_dx p else vel_dx p)
   \<and> vel_dy (update cv m ty p) =
     (if height cv < pos_y p + radius p \<or> pos_y p - radius p < 0 then - vel_dy p else vel_dy p)
   \<and> \<bar>vel_dx (update cv m ty p)\<bar> = \<bar>vel_dx p\<bar>
   \<and> \<bar>vel_dy (update cv m ty p)\<bar> = \<bar>vel_dy p\<bar>"
  by (simp add: update_vel_dx update_vel_dy)

theorem reflection_on_bounds_violation_witness:
  "vel_dx (update canvas_800x600 mouse_initial Network particle_outside) = 1 / 8
   \<and> vel_dy (update canvas_800x600 mouse_initial Network particle_outside) = 1 / 8
   \<and> vel_dx (update canvas_800x600 mouse_initial Network particle_at_edge) = 1 / 8"
  using reflection_on_bounds_violation [where cv = canvas_800x600 and m = mouse_initial
      and ty = Network and p = particle_outside]
    reflection_on_bounds_violation [where cv = canvas_800x600 and m = mouse_initial
      and ty = Network and p = particle_at_edge]
  by (simp add: canvas_800x600_def particle_outside_def particle_at_edge_def)

subsection \<open>Magnification and decay in dots mode\<close>















text \<open>
  C5: in \<open>dots\<close> mode, when the pointer is present and the moved particle is at a
  distance below \<open>influenceRadius\<close> from it, the update sets \<open>currentRadius\<close> to
  \<open>min (3 * baseRadius) (baseRadius + (influenceRadius - distance) / 10)\<close>, which is at
  most \<open>3 * baseRadius\<close>. The scenario of the specification (surface 800 by 600, pointer
  at (400, 300), particle at rest at (410, 300) with \<open>baseRadius = 2\<close>) is the witness:
  the distance is 10 and the radius is 6 after one frame and after three.
\<close>

theorem dots_magnify:
  assumes "mouse_x m = Some mx" and "mouse_y m = Some my"
    and "sqrt ((mx - pos_x (update cv m Dots p))\<^sup>2 + (my - pos_y (update cv m Dots p))\<^sup>2)
           < mouse_radius m"
  shows "radius (update cv m Dots p) =
           min (3 * baseRadius p)
               (baseRadius p
                + (mouse_radius m
                   - sqrt ((mx - pos_x (update cv m Dots p))\<^sup>2
                           + (my - pos_y (update cv m Dots p))\<^sup>2)) / 10)
         \<and> radius (update cv m Dots p) \<le> 3 * baseRadius p"
  using assms update_dots_radius [where m = m and mx = mx and my = my and cv = cv and p = p]
  by (simp add: Let_def mult.commute)

theorem dots_magnify_witness:
  "sqrt ((400 - pos_x (update canvas_800x600 (handleMouseMove mouse_initial 400 300) Dots
                          particle_scenario))\<^sup>2
         + (300 - pos_y (update canvas_800x600 (handleMouseMove mouse_initial 400 300) Dots
                          particle_scenario))\<^sup>2) = 10
   \<and> radius (update canvas_800x600 (handleMouseMove mouse_initial 400 300) Dots
               particle_scenario) = 6
   \<and> radius ((update canvas_800x600 (handleMouseMove mouse_initial 400 300) Dots ^^ 3)
               particle_scenario) = 6"
proof -
  let ?m = "handleMouseMove mouse_initial 400 300"
  let ?q = "update canvas_800x600 ?m Dots particle_scenario"
  have m: "mouse_x ?m = Some 400" "mouse_y ?m = Some 300" "mouse_radius ?m = 150"
    by (simp_all add: handleMouseMove_def mouse_initial_def)
  have pos: "pos_x ?q = 410" "pos_y ?q = 300"
    by (simp_all add: update_dots_pos update_vel_dx update_vel_dy particle_scenario_def
        canvas_800x600_def)
  have d: "sqrt ((400 - pos_x ?q)\<^sup>2 + (300 - pos_y ?q)\<^sup>2) = 10"
    unfolding pos by (simp add: sqrt_100)
  have lt: "sqrt ((400 - pos_x ?q)\<^sup>2 + (300 - pos_y ?q)\<^sup>2) < mouse_radius ?m"
    unfolding d m by simp
  from dots_magnify [OF m(1) m(2) lt]
  have r: "radius ?q = 6"
    unfolding d m by (simp add: particle_scenario_def)
  have s1: "?q = particle_scenario\<lparr>radius := 6\<rparr>"
    by (rule scenario_step) (simp_all add: particle_scenario_def)
  have s2: "update canvas_800x600 ?m Dots (particle_scenario\<lparr>radius := 6\<rparr>)
              = particle_scenario\<lparr>radius := 6\<rparr>"
    using scenario_step [of "particle_scenario\<lparr>radius := 6\<rparr>"]
    by (simp add: particle_scenario_def)
  have "(update canvas_800x600 ?m Dots ^^ 3) particle_scenario = particle_scenario\<lparr>radius := 6\<rparr>"
    by (simp add: numeral_3_eq_3 s1 s2)
  then have r3: "radius ((update canvas_800x600 ?m Dots ^^ 3) particle_scenario) = 6"
    by simp
  from d r r3 show ?thesis by simp
qed

subsection \<open>Repulsion in network mode\<close>

text \<open>
  C6: in \<open>network\<close> mode with the pointer present, let \<open>(x1, y1)\<close> be the position after
  the velocity advance and \<open>d\<close> its distance to the pointer. If \<open>d < influenceRadius\<close> the
  update subtracts one twentieth of the delta \<open>(mx - x1, my - y1)\<close> from the position, which
  moves the particle along the line through the pointer to \<open>21 / 20\<close> of its former
  distance; otherwise the position is \<open>(x1, y1)\<close>.
\<close>

theorem network_repulsion:
  assumes "mouse_x m = Some mx" and "mouse_y m = Some my"
  shows "(let x1 = pos_x p + vel_dx (update cv m Network p);
              y1 = pos_y p + vel_dy (update cv m Network p);
              d = sqrt ((mx - x1) * (mx - x1) + (my - y1) * (my - y1))
          in pos_x (update cv m Network p) = (if d < mouse_radius m then x1 - (mx - x1) / 20 else x1)
           \<and> pos_y (update cv m Network p) = (if d < mouse_radius m then y1 - (my - y1) / 20 else y1)
           \<and> (d < mouse_radius m \<longrightarrow>
                mx - pos_x (update cv m Network p) = (21 / 20) * (mx - x1)
                \<and> my - pos_y (update cv m Network p) = (21 / 20) * (my - y1)))"
proof -
  define x1 where "x1 = pos_x p + vel_dx (update cv m Network p)"
  define y1 where "y1 = pos_y p + vel_dy (update cv m Network p)"
  define d where "d = sqrt ((mx - x1) * (mx - x1) + (my - y1) * (my - y1))"
  have px: "pos_x (update cv m Network p) = (if d < mouse_radius m then x1 - (mx - x1) / 20 else x1)"
    unfolding d_def x1_def y1_def by (rule update_network_pos [OF assms])
  have py: "pos_y (update cv m Network p) = (if d < mouse_radius m then y1 - (my - y1) / 20 else y1)"
    unfolding d_def x1_def y1_def by (rule update_network_pos [OF assms])
  have away: "d < mouse_radius m \<longrightarrow>
                mx - pos_x (update cv m Network p) = (21 / 20) * (mx - x1)
                \<and> my - pos_y (update cv m Network p) = (21 / 20) * (my - y1)"
    unfolding px py by (simp add: field_simps)
  from px py away show ?thesis
    unfolding Let_def x1_def [symmetric] y1_def [symmetric] d_def [symmetric] by blast
qed

theorem network_repulsion_witness:
  "pos_x (update canvas_800x600 (handleMouseMove mouse_initial 400 300) Network particle_scenario)
     = 410 + 1 / 2
   \<and> pos_y (update canvas_800x600 (handleMouseMove mouse_initial 400 300) Network
              particle_scenario) = 300
   \<and> pos_x (update canvas_800x600 (handleMouseMove mouse_initial 400 300) Network
              particle_magnified) = 100"
proof -
  let ?m = "handleMouseMove mouse_initial 400 300"
  have m: "mouse_x ?m = Some 400" "mouse_y ?m = Some 300"
    by (simp_all add: handleMouseMove_def mouse_initial_def)
  have r: "mouse_radius ?m = 150"
    by (simp add: handleMouseMove_def mouse_initial_def)
  have far: "\<not> sqrt 130000 < 150"
    by (simp add: not_less real_le_rsqrt)
  from network_repulsion [OF m, where cv = canvas_800x600 and p = particle_scenario]
  have 1: "pos_x (update canvas_800x600 ?m Network particle_scenario) = 410 + 1 / 2
     \<and> pos_y (update canvas_800x600 ?m Network particle_scenario) = 300"
    by (simp add: Let_def update_vel_dx update_vel_dy particle_scenario_def canvas_800x600_def
        r sqrt_100)
  from network_repulsion [OF m, where cv = canvas_800x600 and p = particle_magnified]
  have 2: "pos_x (update canvas_800x600 ?m Network particle_magnified) = 100"
    by (simp add: Let_def update_vel_dx update_vel_dy particle_magnified_def canvas_800x600_def
        r far)
  from 1 2 show ?thesis by simp
qed

section \<open>Properties of the connection lines\<close>

lemma set_concat_pairs:
  "set (concat (map (\<lambda>a. concat (map (\<lambda>b. if P a b then [f a b] else []) [a..<n])) [0..<n]))
     = {f a b | a b. a \<le> b \<and> b < n \<and> P a b}"
proof -
  have "set (concat (map (\<lambda>a. concat (map (\<lambda>b. if P a b then [f a b] else []) [a..<n])) [0..<n]))
     = (\<Union>a\<in>{0..<n}. \<Union>b\<in>{a..<n}. (if P a b then {f a b} else {}))"
    by (simp add: if_distrib [where f = set] cong: if_cong)
  also have "\<dots> = {f a b | a b. a \<le> b \<and> b < n \<and> P a b}"
  proof (intro set_eqI iffI)
    fix s
    assume "s \<in> (\<Union>a\<in>{0..<n}. \<Union>b\<in>{a..<n}. (if P a b then {f a b} else {}))"
    then obtain a b where "a \<le> b" "b < n" "s \<in> (if P a b then {f a b} else {})"
      by fastforce
    then show "s \<in> {f a b | a b. a \<le> b \<and> b < n \<and> P a b}"
      by (cases "P a b") auto
  next
    fix s
    assume "s \<in> {f a b | a b. a \<le> b \<and> b < n \<and> P a b}"
    then obtain a b where ab: "a \<le> b" "b < n" "P a b" "s = f a b"
      by blast
    then have "a \<in> {0..<n}" "b \<in> {a..<n}" "s \<in> (if P a b then {f a b} else {})"
      by simp_all
    then show "s \<in> (\<Union>a\<in>{0..<n}. \<Union>b\<in>{a..<n}. (if P a b then {f a b} else {}))"
      by blast
  qed
  finally show ?thesis .
qed

lemma connect_set:
  "set (connect cv m ps) =
    {pairStroke cv m (ps ! a) (ps ! b) | a b.
       a \<le> b \<and> b < length ps \<and> particleDistance (ps ! a) (ps ! b) < width cv / 8}"
  unfolding connect_def Let_def pairStroke_def strokeColor_def particleDistance_def
  by (rule set_concat_pairs)

lemma connect_memE:
  assumes "s \<in> set (connect cv m ps)"
  obtains a b where "a \<le> b" and "b < length ps"
    and "particleDistance (ps ! a) (ps ! b) < width cv / 8"
    and "s = pairStroke cv m (ps ! a) (ps ! b)"
proof -
  from assms have "\<exists>a b. s = pairStroke cv m (ps ! a) (ps ! b)
      \<and> a \<le> b \<and> b < length ps \<and> particleDistance (ps ! a) (ps ! b) < width cv / 8"
    unfolding connect_set by (rule CollectD)
  then show thesis using that by metis
qed

lemma connect_memI:
  assumes "a \<le> b" and "b < length ps"
    and "particleDistance (ps ! a) (ps ! b) < width cv / 8"
  shows "pairStroke cv m (ps ! a) (ps ! b) \<in> set (connect cv m ps)"
  unfolding connect_set using assms by (intro CollectI exI [where x = a] exI [where x = b]) simp

lemma stroke_length_pairStroke:
  "stroke_length (pairStroke cv m pa pb) = particleDistance pa pb"
  by (simp add: stroke_length_def pairStroke_def particleDistance_def)

lemma connect_stroke_opacity:
  assumes "s \<in> set (connect cv m ps)"
  shows "stroke_length s < width cv / 8"
    and "opacityValue s = 1 - stroke_length s / (width cv / 8)"
proof -
  from assms obtain a b where d: "particleDistance (ps ! a) (ps ! b) < width cv / 8"
    and s: "s = pairStroke cv m (ps ! a) (ps ! b)"
    by (rule connect_memE)
  show "stroke_length s < width cv / 8"
    unfolding s stroke_length_pairStroke by (rule d)
  show "opacityValue s = 1 - stroke_length s / (width cv / 8)"
    unfolding s stroke_length_pairStroke by (simp add: pairStroke_def)
qed

lemma connect_endpoints_iff:
  assumes "a \<le> b" and "b < length ps"
  shows "(\<exists>s\<in>set (connect cv m ps).
            from_x s = pos_x (ps ! a) \<and> from_y s = pos_y (ps ! a)
            \<and> to_x s = pos_x (ps ! b) \<and> to_y s = pos_y (ps ! b))
         \<longleftrightarrow> sqrt ((pos_x (ps ! a) - pos_x (ps ! b))\<^sup>2
                   + (pos_y (ps ! a) - pos_y (ps ! b))\<^sup>2) < width cv / 8"
    (is "?L \<longleftrightarrow> ?R")
proof
  assume ?L
  then obtain s where s: "s \<in> set (connect cv m ps)"
    and e: "from_x s = pos_x (ps ! a)" "from_y s = pos_y (ps ! a)"
           "to_x s = pos_x (ps ! b)" "to_y s = pos_y (ps ! b)"
    by blast
  from connect_stroke_opacity(1) [OF s] show ?R
    by (simp add: stroke_length_def e)
next
  assume ?R
  then have "particleDistance (ps ! a) (ps ! b) < width cv / 8"
    by (simp add: particleDistance_def)
  with assms have "pairStroke cv m (ps ! a) (ps ! b) \<in> set (connect cv m ps)"
    by (rule connect_memI)
  then show ?L
    by (rule bexI [rotated]) (simp add: pairStroke_def)
qed

lemma opacity_strictly_decreasing:
  assumes "s \<in> set (connect cv m ps)" and "s' \<in> set (connect cv m ps)"
    and "stroke_length s < stroke_length s'"
  shows "opacityValue s' < opacityValue s"
proof -
  have "0 \<le> stroke_length s" by (simp add: stroke_length_def)
  with connect_stroke_opacity(1) [OF assms(1)] have w: "0 < width cv / 8" by linarith
  from assms(3) w have "stroke_length s / (width cv / 8) < stroke_length s' / (width cv / 8)"
    by (rule divide_strict_right_mono)
  then show ?thesis
    unfolding connect_stroke_opacity(2) [OF assms(1)] connect_stroke_opacity(2) [OF assms(2)]
    by simp
qed

lemma strokeColor_default:
  assumes "mouse_x m = None \<or> mouse_x m = Some 0 \<or> mouse_y m = None \<or> mouse_y m = Some 0"
  shows "strokeColor m pa = ''rgba(106, 236, 255, ''"
  using assms by (cases "mouse_x m"; cases "mouse_y m") (auto simp: strokeColor_def)

lemma connect_default_color:
  assumes "mouse_x m = None \<or> mouse_x m = Some 0 \<or> mouse_y m = None \<or> mouse_y m = Some 0"
    and "s \<in> set (connect cv m ps)"
  shows "lineColor s = ''rgba(106, 236, 255, ''"
proof -
  from assms(2) obtain a b where "s = pairStroke cv m (ps ! a) (ps ! b)"
    by (rule connect_memE)
  then have "lineColor s = strokeColor m (ps ! a)"
    by (simp add: pairStroke_def)
  then show ?thesis
    by (simp add: strokeColor_default [OF assms(1)])
qed

text \<open>
  C3: for every pair of indices \<open>a \<le> b\<close> of particles, \<open>connect\<close> strokes a line from
  particle \<open>a\<close> to particle \<open>b\<close> if and only if their Euclidean distance is strictly below
  \<open>width / 8\<close>; every stroked line has the opacity \<open>1 - length / (width / 8)\<close>; and of two
  stroked lines the longer one has the strictly smaller opacity.
\<close>

theorem connection_lines:
  assumes "a \<le> b" and "b < length ps"
  shows "((\<exists>s\<in>set (connect cv m ps).
            from_x s = pos_x (ps ! a) \<and> from_y s = pos_y (ps ! a)
            \<and> to_x s = pos_x (ps ! b) \<and> to_y s = pos_y (ps ! b))
          \<longleftrightarrow> sqrt ((pos_x (ps ! a) - pos_x (ps ! b))\<^sup>2
                   + (pos_y (ps ! a) - pos_y (ps ! b))\<^sup>2) < width cv / 8)
     \<and> (\<forall>s\<in>set (connect cv m ps).
           stroke_length s < width cv / 8
           \<and> opacityValue s = 1 - stroke_length s / (width cv / 8))
     \<and> (\<forall>s\<in>set (connect cv m ps). \<forall>s'\<in>set (connect cv m ps).
           stroke_length s < stroke_length s' \<longrightarrow> opacityValue s' < opacityValue s)"
  using connect_endpoints_iff [OF assms] connect_stroke_opacity opacity_strictly_decreasing
  by blast

theorem connection_lines_witness:
  "\<exists>s\<in>set (connect canvas_800x600 mouse_initial particle_pair).
      from_x s = 50 \<and> from_y s = 100 \<and> to_x s = 60 \<and> to_y s = 100
      \<and> stroke_length s = 10 \<and> opacityValue s = 9 / 10"
proof -
  have a: "(0::nat) \<le> 1" by simp
  have b: "1 < length particle_pair" by (simp add: particle_pair_def)
  have d: "sqrt ((pos_x (particle_pair ! 0) - pos_x (particle_pair ! 1))\<^sup>2
                   + (pos_y (particle_pair ! 0) - pos_y (particle_pair ! 1))\<^sup>2)
            < width canvas_800x600 / 8"
    by (simp add: particle_pair_def canvas_800x600_def sqrt_100)
  note cl = connection_lines [OF a b, where cv = canvas_800x600 and m = mouse_initial]
  from cl d obtain s where s: "s \<in> set (connect canvas_800x600 mouse_initial particle_pair)"
    and e: "from_x s = pos_x (particle_pair ! 0)" "from_y s = pos_y (particle_pair ! 0)"
           "to_x s = pos_x (particle_pair ! 1)" "to_y s = pos_y (particle_pair ! 1)"
    by blast
  from e have e': "from_x s = 50" "from_y s = 100" "to_x s = 60" "to_y s = 100"
    by (simp_all add: particle_pair_def)
  then have l: "stroke_length s = 10"
    by (simp add: stroke_length_def sqrt_100)
  from cl s have "opacityValue s = 1 - stroke_length s / (width canvas_800x600 / 8)"
    by blast
  then have "opacityValue s = 9 / 10"
    by (simp add: l canvas_800x600_def)
  with s e' l show ?thesis by blast
qed

text \<open>
  C10: after a pointer-move event whose \<open>clientX\<close> or \<open>clientY\<close> is \<open>0\<close>, every line that
  \<open>connect\<close> strokes has the default colour. In the witness the pointer at (0, 100) is
  within \<open>influenceRadius\<close> of the first particle of the pair and the line has the default
  colour, whereas with the pointer at (20, 100) the same line is highlighted.
\<close>

theorem connect_truthiness_default_color:
  assumes "clientX = 0 \<or> clientY = 0"
  shows "\<forall>s\<in>set (connect cv (handleMouseMove m clientX clientY) ps).
           lineColor s = ''rgba(106, 236, 255, ''"
proof
  fix s
  assume s: "s \<in> set (connect cv (handleMouseMove m clientX clientY) ps)"
  from assms have "mouse_x (handleMouseMove m clientX clientY) = None
      \<or> mouse_x (handleMouseMove m clientX clientY) = Some 0
      \<or> mouse_y (handleMouseMove m clientX clientY) = None
      \<or> mouse_y (handleMouseMove m clientX clientY) = Some 0"
    by (auto simp: handleMouseMove_def)
  then show "lineColor s = ''rgba(106, 236, 255, ''"
    using s by (rule connect_default_color)
qed

theorem connect_truthiness_default_color_witness:
  "sqrt ((0 - pos_x (particle_pair ! 0))\<^sup>2 + (100 - pos_y (particle_pair ! 0))\<^sup>2)
     < mouse_radius (handleMouseMove mouse_initial 0 100)
   \<and> (\<exists>s\<in>set (connect canvas_800x600 (handleMouseMove mouse_initial 0 100) particle_pair).
         from_x s = 50 \<and> to_x s = 60 \<and> lineColor s = ''rgba(106, 236, 255, '')
   \<and> (\<exists>s\<in>set (connect canvas_800x600 (handleMouseMove mouse_initial 20 100) particle_pair).
         from_x s = 50 \<and> to_x s = 60 \<and> lineColor s = ''rgba(123, 62, 240, '')"
proof -
  have z: "(0::real) = 0 \<or> (100::real) = 0" by simp
  note dc = connect_truthiness_default_color [OF z, where cv = canvas_800x600
      and m = mouse_initial and ps = particle_pair]
  have sq: "sqrt 2500 = 50" "sqrt 900 = 30"
    by (rule real_sqrt_unique; simp)+
  have near: "sqrt ((0 - pos_x (particle_pair ! 0))\<^sup>2 + (100 - pos_y (particle_pair ! 0))\<^sup>2)
     < mouse_radius (handleMouseMove mouse_initial 0 100)"
    by (simp add: particle_pair_def handleMouseMove_def mouse_initial_def sq)
  have i: "(0::nat) \<le> 1" "1 < length particle_pair"
    by (simp_all add: particle_pair_def)
  have d: "sqrt ((pos_x (particle_pair ! 0) - pos_x (particle_pair ! 1))\<^sup>2
                   + (pos_y (particle_pair ! 0) - pos_y (particle_pair ! 1))\<^sup>2)
            < width canvas_800x600 / 8"
    by (simp add: particle_pair_def canvas_800x600_def sqrt_100)
  with connect_endpoints_iff [OF i, where cv = canvas_800x600
      and m = "handleMouseMove mouse_initial 0 100"]
  obtain s where s: "s \<in> set (connect canvas_800x600 (handleMouseMove mouse_initial 0 100)
                                particle_pair)"
    and e: "from_x s = pos_x (particle_pair ! 0)" "to_x s = pos_x (particle_pair ! 1)"
    by blast
  from dc s have col: "lineColor s = ''rgba(106, 236, 255, ''"
    by blast
  from e have e': "from_x s = 50" "to_x s = 60"
    by (simp_all add: particle_pair_def)
  from s e' col
  have 1: "\<exists>s\<in>set (connect canvas_800x600 (handleMouseMove mouse_initial 0 100) particle_pair).
         from_x s = 50 \<and> to_x s = 60 \<and> lineColor s = ''rgba(106, 236, 255, ''"
    by blast
  have "particleDistance (particle_pair ! 0) (particle_pair ! 1) < width canvas_800x600 / 8"
    using d by (simp add: particleDistance_def)
  with i have "pairStroke canvas_800x600 (handleMouseMove mouse_initial 20 100)
                 (particle_pair ! 0) (particle_pair ! 1)
        \<in> set (connect canvas_800x600 (handleMouseMove mouse_initial 20 100) particle_pair)"
    by (rule connect_memI)
  then have 2: "\<exists>s\<in>set (connect canvas_800x600 (handleMouseMove mouse_initial 20 100)
                           particle_pair).
         from_x s = 50 \<and> to_x s = 60 \<and> lineColor s = ''rgba(123, 62, 240, ''"
    by (rule bexI [rotated])
       (simp add: pairStroke_def strokeColor_def particle_pair_def handleMouseMove_def
         mouse_initial_def sq)
  from near 1 2 show ?thesis by blast
qed

section \<open>Properties of the waves\<close>

lemma drawWaves_waves:
  "fst (snd (drawWaves cv m t ws)) = map (\<lambda>index. waveInteraction cv m index (ws ! index)) [0..<length ws]"
  by (simp add: drawWaves_def Let_def)

lemma drawWaves_absent:
  assumes "mouse_y m = None"
  shows "fst (snd (drawWaves cv m t ws)) = ws"
  using assms by (simp add: drawWaves_waves waveInteraction_def map_nth)

lemma number_centre:
  assumes "h \<noteq> 0"
  shows "number_plus (number_times (number_times
           (number_plus (number_times (number_divide (h / 2) h) 2) (- 1)) 20) r) b = Finite b"
  using assms by (simp add: number_divide_def)

text \<open>
  C9, as stated, fails on a surface of height \<open>0\<close>, which \<open>resizeCanvas\<close> produces when
  the container has no height and the viewport height is \<open>0\<close>: with the pointer at the
  vertical centre \<open>0\<close> the quotient \<open>mouse.y / canvas.height\<close> is \<open>0 / 0\<close> and the amplitude
  that is stored is \<open>NaN\<close>, not the \<open>baseAmplitude\<close> \<open>80\<close>.
\<close>

theorem wave_amplitude_counterexample:
  "height (canvas state_collapsed) = 0
   \<and> mouse_y (handleMouseMove mouse_initial 400 0) = Some (height (canvas state_collapsed) / 2)
   \<and> baseAmplitude (waves state_collapsed ! 0) = 80
   \<and> amplitude (fst (snd (drawWaves (canvas state_collapsed) (handleMouseMove mouse_initial 400 0)
                             (time state_collapsed) (waves state_collapsed))) ! 0) = NaN"
proof -
  have c: "canvas state_collapsed = \<lparr>width = 800, height = 0\<rparr>"
    by (simp add: state_collapsed_def resizeCanvas_def window_collapsed_def Let_def)
  have w: "waves state_collapsed ! 0 =
      \<lparr>timeModifier = 8 / 10, baseAmplitude = 80, amplitude = Finite 80, wavelength = 350,
        wave_color = ''rgba(123, 62, 240, 0.4)'', yOffset = 0\<rparr>"
    "0 < length (waves state_collapsed)"
    by (simp_all add: state_collapsed_def resizeCanvas_def window_collapsed_def Let_def
        initWaves_def waveColors_def rand_half_def nth_append)
  have "amplitude (fst (snd (drawWaves (canvas state_collapsed)
            (handleMouseMove mouse_initial 400 0) (time state_collapsed)
            (waves state_collapsed))) ! 0) = NaN"
    unfolding drawWaves_waves using w(2)
    by (simp add: w(1) c waveInteraction_def handleMouseMove_def number_divide_def)
  then show ?thesis
    by (simp add: c w(1) handleMouseMove_def)
qed

text \<open>
  C9, amended: on a surface whose height is not \<open>0\<close>, when the vertical pointer
  coordinate is \<open>height / 2\<close>, \<open>drawWaves\<close> sets the amplitude of every wave, at every
  index, to the \<open>baseAmplitude\<close> of that wave.
\<close>

theorem wave_amplitude_at_centre:
  assumes "height cv \<noteq> 0" and "mouse_y m = Some (height cv / 2)" and "index < length ws"
  shows "amplitude (fst (snd (drawWaves cv m t ws)) ! index) = Finite (baseAmplitude (ws ! index))"
  using assms by (simp add: drawWaves_waves waveInteraction_def number_centre)

theorem wave_amplitude_at_centre_witness:
  "amplitude (fst (snd (drawWaves canvas_800x600 (handleMouseMove mouse_initial 400 300) 0
                          wave_sample)) ! 2) = Finite 100
   \<and> amplitude (wave_sample ! 2) = Finite 55"
proof -
  have a: "height canvas_800x600 \<noteq> 0" by (simp add: canvas_800x600_def)
  have b: "mouse_y (handleMouseMove mouse_initial 400 300) = Some (height canvas_800x600 / 2)"
    by (simp add: handleMouseMove_def canvas_800x600_def)
  have c: "2 < length wave_sample" by (simp add: wave_sample_def)
  from wave_amplitude_at_centre [OF a b c, where t = 0] show ?thesis
    by (simp add: wave_sample_def)
qed

section \<open>Before the first pointer event\<close>

text \<open>
  C7: with the initial pointer state (no pointer-move event received yet), the particle
  update in every mode only reflects and advances (no repulsion, and the radius is
  untouched), \<open>drawWaves\<close> leaves every wave as it is, and every line of \<open>connect\<close> has
  the default colour.
\<close>

theorem no_pointer_no_effect:
  "update cv mouse_initial ty p =
     p\<lparr>pos_x := pos_x p + (if width cv < pos_x p + radius p \<or> pos_x p - radius p < 0
                             then - vel_dx p else vel_dx p),
       pos_y := pos_y p + (if height cv < pos_y p + radius p \<or> pos_y p - radius p < 0
                             then - vel_dy p else vel_dy p),
       vel_dx := (if width cv < pos_x p + radius p \<or> pos_x p - radius p < 0
                  then - vel_dx p else vel_dx p),
       vel_dy := (if height cv < pos_y p + radius p \<or> pos_y p - radius p < 0
                  then - vel_dy p else vel_dy p)\<rparr>
   \<and> fst (snd (drawWaves cv mouse_initial t ws)) = ws
   \<and> (\<forall>s\<in>set (connect cv mouse_initial ps). lineColor s = ''rgba(106, 236, 255, '')"
proof -
  have a: "mouse_x mouse_initial = None \<or> mouse_y mouse_initial = None"
    and b: "mouse_y mouse_initial = None"
    and c: "mouse_x mouse_initial = None \<or> mouse_x mouse_initial = Some 0
            \<or> mouse_y mouse_initial = None \<or> mouse_y mouse_initial = Some 0"
    by (simp_all add: mouse_initial_def)
  show ?thesis
    using update_absent [OF a] drawWaves_absent [OF b] connect_default_color [OF c]
    by simp
qed

theorem no_pointer_no_effect_witness:
  "(\<exists>s\<in>set (connect canvas_800x600 mouse_initial particle_pair).
      from_x s = 50 \<and> to_x s = 60 \<and> lineColor s = ''rgba(106, 236, 255, '')
   \<and> radius (update canvas_800x600 mouse_initial Dots particle_magnified) = 5 / 2
   \<and> pos_x (update canvas_800x600 mouse_initial Network particle_scenario) = 410
   \<and> map amplitude (fst (snd (drawWaves canvas_800x600 mouse_initial 0 wave_sample)))
       = [Finite 95, Finite 70, Finite 55]"
proof -
  note np = no_pointer_no_effect [where cv = canvas_800x600]
  have i: "(0::nat) \<le> 1" "1 < length particle_pair"
    by (simp_all add: particle_pair_def)
  have "sqrt ((pos_x (particle_pair ! 0) - pos_x (particle_pair ! 1))\<^sup>2
                   + (pos_y (particle_pair ! 0) - pos_y (particle_pair ! 1))\<^sup>2)
            < width canvas_800x600 / 8"
    by (simp add: particle_pair_def canvas_800x600_def sqrt_100)
  with connect_endpoints_iff [OF i, where cv = canvas_800x600 and m = mouse_initial]
  obtain s where s: "s \<in> set (connect canvas_800x600 mouse_initial particle_pair)"
    and e: "from_x s = pos_x (particle_pair ! 0)" "to_x s = pos_x (particle_pair ! 1)"
    by blast
  from np [where ps = particle_pair] s
  have col: "lineColor s = ''rgba(106, 236, 255, ''"
    by blast
  from e have e': "from_x s = 50" "to_x s = 60"
    by (simp_all add: particle_pair_def)
  from s e' col have 1: "\<exists>s\<in>set (connect canvas_800x600 mouse_initial particle_pair).
      from_x s = 50 \<and> to_x s = 60 \<and> lineColor s = ''rgba(106, 236, 255, ''"
    by blast
  from np [where ty = Dots and p = particle_magnified]
  have 2: "radius (update canvas_800x600 mouse_initial Dots particle_magnified) = 5 / 2"
    by (simp add: particle_magnified_def)
  from np [where ty = Network and p = particle_scenario]
  have 3: "pos_x (update canvas_800x600 mouse_initial Network particle_scenario) = 410"
    by (simp add: particle_scenario_def canvas_800x600_def)
  from np [where t = 0 and ws = wave_sample]
  have 4: "map amplitude (fst (snd (drawWaves canvas_800x600 mouse_initial 0 wave_sample)))
       = [Finite 95, Finite 70, Finite 55]"
    by (simp add: wave_sample_def)
  from 1 2 3 4 show ?thesis by blast
qed

section \<open>Re-initialisation\<close>

text \<open>
  C8: \<open>initParticles\<close> does not depend on the particles it replaces, and the number of
  particles it creates is 40 (\<open>network\<close>) or 60 (otherwise) when \<open>innerWidth < 768\<close> and
  80 (\<open>network\<close>) or 180 (otherwise) when \<open>innerWidth \<ge> 768\<close>.
\<close>

theorem initParticles_count:
  "initParticles win cv ty rand old = initParticles win cv ty rand []
   \<and> length (initParticles win cv ty rand old) =
       (if ty = Network then (if innerWidth win < 768 then 40 else 80)
        else (if innerWidth win < 768 then 60 else 180))"
  by (simp add: initParticles_def particleCount_def Let_def)

theorem initParticles_count_witness:
  "length (initParticles window_desktop canvas_800x600 Network rand_half [particle_at_edge]) = 80
   \<and> length (initParticles window_mobile canvas_800x600 Network rand_half [particle_at_edge]) = 40
   \<and> length (initParticles window_desktop canvas_800x600 Dots rand_half [particle_at_edge]) = 180
   \<and> length (initParticles window_mobile canvas_800x600 Dots rand_half [particle_at_edge]) = 60"
proof -
  have w: "\<not> innerWidth window_desktop < 768" "innerWidth window_mobile < 768"
    by (simp_all add: window_desktop_def window_mobile_def)
  show ?thesis
    using initParticles_count [where win = window_desktop and cv = canvas_800x600
        and rand = rand_half and old = "[particle_at_edge]" and ty = Network, THEN conjunct2]
      initParticles_count [where win = window_mobile and cv = canvas_800x600
        and rand = rand_half and old = "[particle_at_edge]" and ty = Network, THEN conjunct2]
      initParticles_count [where win = window_desktop and cv = canvas_800x600
        and rand = rand_half and old = "[particle_at_edge]" and ty = Dots, THEN conjunct2]
      initParticles_count [where win = window_mobile and cv = canvas_800x600
        and rand = rand_half and old = "[particle_at_edge]" and ty = Dots, THEN conjunct2]
    by (simp add: w)
qed

end
